theory Spec2Isabelle
  imports Complex_Main "HOL-Library.AList"
begin

section \<open>The dual-projection camera \<open>OrthoPerspectiveCamera\<close>\<close>

text \<open>
  A shallow embedding of the class \<^verbatim>\<open>OrthoPerspectiveCamera\<close> (second document of
  \<^verbatim>\<open>src/examples/fragment/main.js\<close>, lines 125 to 303). Mutation is explicit state
  passing on a record of the object's fields; a \<^verbatim>\<open>throw\<close> is the left injection of a
  sum, returned together with the state as it is at the moment of the throw.
  JavaScript numbers are idealised as real numbers: rounding, NaN and the infinities
  of IEEE doubles are not modelled.
\<close>

subsection \<open>Values of the three.js library\<close>

record Vector2 =
  v2x :: real
  v2y :: real

record Vector3 =
  v3x :: real
  v3y :: real
  v3z :: real

definition sub :: "Vector3 \<Rightarrow> Vector3 \<Rightarrow> Vector3" where
  "sub a b = \<lparr>v3x = v3x a - v3x b, v3y = v3y a - v3y b, v3z = v3z a - v3z b\<rparr>"

definition dot :: "Vector3 \<Rightarrow> Vector3 \<Rightarrow> real" where
  "dot a b = v3x a * v3x b + v3y a * v3y b + v3z a * v3z b"

record Box3 =
  box_min :: Vector3
  box_max :: Vector3

record Sphere =
  center :: Vector3
  radius :: real

text \<open>
  \<^verbatim>\<open>Box3.isEmpty\<close>, \<^verbatim>\<open>Box3.getSize\<close> and \<^verbatim>\<open>Box3.getCenter\<close> of three.js: a box
  whose maximum lies below its minimum on some axis is empty, and an empty box has size
  and center \<open>(0, 0, 0)\<close>.
\<close>

definition isEmpty :: "Box3 \<Rightarrow> bool" where
  "isEmpty b \<longleftrightarrow>
     v3x (box_max b) < v3x (box_min b) \<or> v3y (box_max b) < v3y (box_min b)
       \<or> v3z (box_max b) < v3z (box_min b)"

definition getSize :: "Box3 \<Rightarrow> Vector3" where
  "getSize b =
     (if isEmpty b then \<lparr>v3x = 0, v3y = 0, v3z = 0\<rparr> else sub (box_max b) (box_min b))"

definition getCenter :: "Box3 \<Rightarrow> Vector3" where
  "getCenter b =
     (if isEmpty b then \<lparr>v3x = 0, v3y = 0, v3z = 0\<rparr>
      else \<lparr>v3x = (v3x (box_min b) + v3x (box_max b)) * 0.5,
            v3y = (v3y (box_min b) + v3y (box_max b)) * 0.5,
            v3z = (v3z (box_min b) + v3z (box_max b)) * 0.5\<rparr>)"

text \<open>
  A mesh is seen only through \<^verbatim>\<open>new THREE.Box3().setFromObject(mesh)\<close>, its
  world-space bounding box.
\<close>

record Mesh =
  bounding_box :: Box3

definition setFromObject :: "Mesh \<Rightarrow> Box3" where
  "setFromObject mesh = bounding_box mesh"

text \<open>
  \<^verbatim>\<open>Number.MAX_VALUE\<close> is the largest finite double, \<^verbatim>\<open>Number.MIN_VALUE\<close> the smallest
  positive one.
\<close>

definition MAX_VALUE :: real where
  "MAX_VALUE = (2 ^ 53 - 1) * 2 ^ 971"

definition MIN_VALUE :: real where
  "MIN_VALUE = 1 / 2 ^ 1074"

record PerspectiveCamera =
  position :: Vector3
  worldDirection :: Vector3
  fov :: real

definition getWorldDirection :: "PerspectiveCamera \<Rightarrow> Vector3" where
  "getWorldDirection camera = worldDirection camera"

record OrthographicCamera =
  ortho_left :: real
  ortho_right :: real
  ortho_top :: real
  ortho_bottom :: real
  ortho_near :: real
  ortho_far :: real
  ortho_zoom :: real
  projectionMatrix_updates :: nat

definition updateProjectionMatrix :: "OrthographicCamera \<Rightarrow> OrthographicCamera" where
  "updateProjectionMatrix c = c\<lparr>projectionMatrix_updates := Suc (projectionMatrix_updates c)\<rparr>"

subsection \<open>The pointer controller, the world and the base camera\<close>

text \<open>
  A pointer-button binding is whatever JavaScript value the controller holds; reading
  a property that an object does not have gives \<^verbatim>\<open>undefined\<close>.
\<close>

datatype jsvalue = Undefined | Number int

record MouseButtons =
  mb_left :: jsvalue
  mb_right :: jsvalue
  mb_middle :: jsvalue
  mb_wheel :: jsvalue

text \<open>
  The controller (the camera-controls library) is opaque. Its look-at target and its
  button bindings are fields; \<^verbatim>\<open>fitToSphere(sphere, enableTransition)\<close> is recorded as
  a call.
\<close>

record CameraControls =
  mouseButtons :: MouseButtons
  target :: Vector3
  fitToSphere_calls :: "(Sphere \<times> bool) list"

definition getTarget :: "CameraControls \<Rightarrow> Vector3" where
  "getTarget c = target c"

definition fitToSphere :: "Sphere \<Rightarrow> bool \<Rightarrow> CameraControls \<Rightarrow> CameraControls" where
  "fitToSphere sphere enableTransition c =
     c\<lparr>fitToSphere_calls := fitToSphere_calls c @ [(sphere, enableTransition)]\<rparr>"

record Renderer =
  renderer_size :: Vector2

record World =
  renderer :: "Renderer option"

record Window =
  innerWidth :: real
  innerHeight :: real

text \<open>
  The members of the base class \<^verbatim>\<open>SimpleCamera\<close> that the subclass reads: the
  declaration is not among the sources, so they are plain fields.
\<close>

record SimpleCamera =
  enabled :: bool
  controls :: CameraControls
  currentWorld :: "World option"
  three :: PerspectiveCamera

subsection \<open>Navigation modes\<close>

type_synonym NavModeID = string

datatype NavigationMode = OrbitMode | FirstPersonMode | PlanMode

text \<open>
  Modelled from the spec: the classes \<^verbatim>\<open>OrbitMode\<close>, \<^verbatim>\<open>FirstPersonMode\<close> and
  \<^verbatim>\<open>PlanMode\<close> are imported from a module that is not among the sources. Each variant
  has a stable \<^verbatim>\<open>id\<close>, the identifier Orbit, FirstPerson or Plan.
\<close>

fun nav_id :: "NavigationMode \<Rightarrow> NavModeID" where
  "nav_id OrbitMode = ''Orbit''"
| "nav_id FirstPersonMode = ''FirstPerson''"
| "nav_id PlanMode = ''Plan''"

record SetOptions =
  preventTargetAdjustment :: bool

record ModeCall =
  call_mode :: NavigationMode
  call_active :: bool
  call_options :: "SetOptions option"

datatype error = NotInitialized | UnknownMode

subsection \<open>The camera object\<close>

record OrthoPerspectiveCamera = SimpleCamera +
  priv_mode :: "NavigationMode option"
  threeOrtho :: OrthographicCamera
  threePersp :: PerspectiveCamera
  priv_userInputButtons :: "(string \<times> jsvalue) list"
  priv_navigationModes :: "NavModeID \<rightharpoonup> NavigationMode"
  mode_calls :: "ModeCall list"

text \<open>
  Modelled from the spec: \<^verbatim>\<open>NavigationMode.set(active, options)\<close> is not among the
  sources. It reconfigures the shared controller in a way the spec leaves to each
  variant; the model records the call with its receiver and its arguments in
  \<open>mode_calls\<close>, in order.
\<close>

definition nav_set ::
  "NavigationMode \<Rightarrow> bool \<Rightarrow> SetOptions option \<Rightarrow> OrthoPerspectiveCamera \<Rightarrow> OrthoPerspectiveCamera"
where
  "nav_set m active options s =
     s\<lparr>mode_calls := mode_calls s @ [\<lparr>call_mode = m, call_active = active, call_options = options\<rparr>]\<rparr>"

definition priv_frustumSize :: real where
  "priv_frustumSize = 50"

definition newOrthoCamera :: "Window \<Rightarrow> OrthographicCamera" where
  "newOrthoCamera window =
     (let aspect = innerWidth window / innerHeight window
      in \<lparr>ortho_left = (priv_frustumSize * aspect) / - 2,
          ortho_right = (priv_frustumSize * aspect) / 2,
          ortho_top = priv_frustumSize / 2,
          ortho_bottom = priv_frustumSize / - 2,
          ortho_near = 0.1,
          ortho_far = 1000,
          ortho_zoom = 1,
          projectionMatrix_updates = 0\<rparr>)"

text \<open>The state right after the constructor: no mode, an empty registry, an empty snapshot.\<close>

definition new_OrthoPerspectiveCamera :: "SimpleCamera \<Rightarrow> Window \<Rightarrow> OrthoPerspectiveCamera" where
  "new_OrthoPerspectiveCamera base window =
     \<lparr>enabled = enabled base,
      controls = controls base,
      currentWorld = currentWorld base,
      three = three base,
      priv_mode = None,
      threeOrtho = newOrthoCamera window,
      threePersp = three base,
      priv_userInputButtons = [],
      priv_navigationModes = Map.empty,
      mode_calls = []\<rparr>"

text \<open>The getter \<^verbatim>\<open>mode\<close>.\<close>

definition mode :: "OrthoPerspectiveCamera \<Rightarrow> error + NavigationMode" where
  "mode s = (case priv_mode s of None \<Rightarrow> Inl NotInitialized | Some m \<Rightarrow> Inr m)"

text \<open>The handler that the constructor registers on \<^verbatim>\<open>onWorldChanged\<close>.\<close>

definition onWorldChanged :: "OrthoPerspectiveCamera \<Rightarrow> (error + unit) \<times> OrthoPerspectiveCamera" where
  "onWorldChanged s =
     (let s1 = s\<lparr>priv_navigationModes := Map.empty\<rparr>;
          s2 = s1\<lparr>priv_navigationModes := (priv_navigationModes s1)(''Orbit'' \<mapsto> OrbitMode)\<rparr>;
          s3 = s2\<lparr>priv_navigationModes := (priv_navigationModes s2)(''FirstPerson'' \<mapsto> FirstPersonMode)\<rparr>;
          s4 = s3\<lparr>priv_navigationModes := (priv_navigationModes s3)(''Plan'' \<mapsto> PlanMode)\<rparr>;
          s5 = s4\<lparr>priv_mode := priv_navigationModes s4 ''Orbit''\<rparr>
      in (case mode s5 of
            Inl e \<Rightarrow> (Inl e, s5)
          | Inr m \<Rightarrow> (Inr (), nav_set m True (Some \<lparr>preventTargetAdjustment = True\<rparr>) s5)))"

text \<open>
  The method \<^verbatim>\<open>set(mode)\<close>. Each \<^verbatim>\<open>this.mode\<close> goes through the getter, which
  throws when the field is null and otherwise returns a mode that is not null, so the
  test \<^verbatim>\<open>this.mode === null\<close> never succeeds. The old mode is switched off before the
  registry is consulted.
\<close>

definition set_mode ::
  "NavModeID \<Rightarrow> OrthoPerspectiveCamera \<Rightarrow> (error + unit) \<times> OrthoPerspectiveCamera"
where
  "set_mode mode_id s =
     (case mode s of
        Inl e \<Rightarrow> (Inl e, s)
      | Inr cur \<Rightarrow>
          if nav_id cur = mode_id then (Inr (), s)
          else
            (let s1 = nav_set cur False None s
             in if priv_navigationModes s1 mode_id = None then (Inl UnknownMode, s1)
                else
                  (let s2 = s1\<lparr>priv_mode := priv_navigationModes s1 mode_id\<rparr>
                   in (case mode s2 of
                         Inl e \<Rightarrow> (Inl e, s2)
                       | Inr new \<Rightarrow> (Inr (), nav_set new True None s2)))))"

subsection \<open>Fitting the view to meshes\<close>

text \<open>
  The body of the \<^verbatim>\<open>for\<close> loop of \<^verbatim>\<open>fit\<close>: one mesh's box is folded into the
  running minimum and maximum, each of the six coordinates by its own comparison.
\<close>

definition fit_step :: "Mesh \<Rightarrow> Vector3 \<times> Vector3 \<Rightarrow> Vector3 \<times> Vector3" where
  "fit_step mesh acc =
     (let box = setFromObject mesh;
          min0 = fst acc;
          max0 = snd acc;
          min1 = (if v3x (box_min box) < v3x min0 then min0\<lparr>v3x := v3x (box_min box)\<rparr> else min0);
          min2 = (if v3y (box_min box) < v3y min1 then min1\<lparr>v3y := v3y (box_min box)\<rparr> else min1);
          min3 = (if v3z (box_min box) < v3z min2 then min2\<lparr>v3z := v3z (box_min box)\<rparr> else min2);
          max1 = (if v3x (box_max box) > v3x max0 then max0\<lparr>v3x := v3x (box_max box)\<rparr> else max0);
          max2 = (if v3y (box_max box) > v3y max1 then max1\<lparr>v3y := v3y (box_max box)\<rparr> else max1);
          max3 = (if v3z (box_max box) > v3z max2 then max2\<lparr>v3z := v3z (box_max box)\<rparr> else max2)
      in (min3, max3))"

fun fit_loop :: "Mesh list \<Rightarrow> Vector3 \<times> Vector3 \<Rightarrow> Vector3 \<times> Vector3" where
  "fit_loop [] acc = acc"
| "fit_loop (mesh # meshes) acc = fit_loop meshes (fit_step mesh acc)"

text \<open>The box that \<^verbatim>\<open>fit\<close> passes to \<^verbatim>\<open>new THREE.Box3(min, max)\<close>.\<close>

definition fit_box :: "Mesh list \<Rightarrow> Box3" where
  "fit_box meshes =
     (let maxNum = MAX_VALUE;
          minNum = MIN_VALUE;
          min0 = \<lparr>v3x = maxNum, v3y = maxNum, v3z = maxNum\<rparr>;
          max0 = \<lparr>v3x = minNum, v3y = minNum, v3z = minNum\<rparr>;
          acc = fit_loop meshes (min0, max0)
      in \<lparr>box_min = fst acc, box_max = snd acc\<rparr>)"

definition fit_sphere :: "Mesh list \<Rightarrow> real \<Rightarrow> Sphere" where
  "fit_sphere meshes offset =
     (let box = fit_box meshes;
          sceneSize = getSize box;
          sceneCenter = getCenter box;
          radius = max (max (v3x sceneSize) (v3y sceneSize)) (v3z sceneSize) * offset
      in \<lparr>center = sceneCenter, radius = radius\<rparr>)"

text \<open>
  The method \<^verbatim>\<open>fit(meshes, offset = 1.5)\<close>; an absent second argument is \<open>None\<close>.
  The iterable is the list of the meshes it yields.
\<close>

definition fit :: "Mesh list \<Rightarrow> real option \<Rightarrow> OrthoPerspectiveCamera \<Rightarrow> OrthoPerspectiveCamera" where
  "fit meshes offset_arg s =
     (if \<not> enabled s then s
      else
        (let offset = (case offset_arg of None \<Rightarrow> 1.5 | Some v \<Rightarrow> v);
             sphere = fit_sphere meshes offset
         in s\<lparr>controls := fitToSphere sphere True (controls s)\<rparr>))"

subsection \<open>Enabling and disabling user input\<close>

text \<open>Reading a property of the snapshot object \<^verbatim>\<open>_userInputButtons\<close>.\<close>

definition get_prop :: "(string \<times> jsvalue) list \<Rightarrow> string \<Rightarrow> jsvalue" where
  "get_prop obj k = (case map_of obj k of None \<Rightarrow> Undefined | Some v \<Rightarrow> v)"

definition disableUserInput :: "OrthoPerspectiveCamera \<Rightarrow> OrthoPerspectiveCamera" where
  "disableUserInput s =
     (let s1 = s\<lparr>priv_userInputButtons :=
                  AList.update ''left'' (mb_left (mouseButtons (controls s))) (priv_userInputButtons s)\<rparr>;
          s2 = s1\<lparr>priv_userInputButtons :=
                  AList.update ''right'' (mb_right (mouseButtons (controls s1))) (priv_userInputButtons s1)\<rparr>;
          s3 = s2\<lparr>priv_userInputButtons :=
                  AList.update ''middle'' (mb_middle (mouseButtons (controls s2))) (priv_userInputButtons s2)\<rparr>;
          s4 = s3\<lparr>priv_userInputButtons :=
                  AList.update ''wheel'' (mb_wheel (mouseButtons (controls s3))) (priv_userInputButtons s3)\<rparr>
      in s4\<lparr>controls := (controls s4)\<lparr>mouseButtons :=
             \<lparr>mb_left = Number 0, mb_right = Number 0, mb_middle = Number 0, mb_wheel = Number 0\<rparr>\<rparr>\<rparr>)"

definition enableUserInput :: "OrthoPerspectiveCamera \<Rightarrow> OrthoPerspectiveCamera" where
  "enableUserInput s =
     (if length (map fst (priv_userInputButtons s)) = 0 then s
      else s\<lparr>controls := (controls s)\<lparr>mouseButtons :=
             \<lparr>mb_left = get_prop (priv_userInputButtons s) ''left'',
              mb_right = get_prop (priv_userInputButtons s) ''right'',
              mb_middle = get_prop (priv_userInputButtons s) ''middle'',
              mb_wheel = get_prop (priv_userInputButtons s) ''wheel''\<rparr>\<rparr>\<rparr>)"

definition setUserInput :: "bool \<Rightarrow> OrthoPerspectiveCamera \<Rightarrow> OrthoPerspectiveCamera" where
  "setUserInput active s = (if active then enableUserInput s else disableUserInput s)"

subsection \<open>Synchronising the orthographic frustum\<close>

definition setOrthoCameraAspect :: "OrthoPerspectiveCamera \<Rightarrow> OrthoPerspectiveCamera" where
  "setOrthoCameraAspect s =
     (case currentWorld s of
        None \<Rightarrow> s
      | Some world \<Rightarrow>
          (case renderer world of
             None \<Rightarrow> s
           | Some r \<Rightarrow>
               (let lineOfSight = getWorldDirection (threePersp s);
                    target = getTarget (controls s);
                    distance = sub target (position (threePersp s));
                    depth = dot distance lineOfSight;
                    dims = renderer_size r;
                    aspect = v2x dims / v2y dims;
                    camera = threePersp s;
                    height = depth * 2 * arctan ((fov camera * (pi / 180)) / 2);
                    width = height * aspect
                in s\<lparr>threeOrtho := updateProjectionMatrix
                     ((threeOrtho s)\<lparr>ortho_zoom := 1,
                        ortho_left := width / - 2,
                        ortho_right := width / 2,
                        ortho_top := height / 2,
                        ortho_bottom := height / - 2\<rparr>)\<rparr>)))"

subsection \<open>A concrete camera\<close>

text \<open>
  A camera with the bindings 1, 2, 4 and 8, a perspective camera at the origin looking
  down the negative z axis with a field of view of 50 degrees, a target at depth 10 and
  a viewport of 1500 by 1000 pixels.
\<close>

definition example_base :: SimpleCamera where
  "example_base =
     \<lparr>enabled = True,
      controls =
        \<lparr>mouseButtons = \<lparr>mb_left = Number 1, mb_right = Number 2, mb_middle = Number 4, mb_wheel = Number 8\<rparr>,
         target = \<lparr>v3x = 0, v3y = 0, v3z = - 10\<rparr>,
         fitToSphere_calls = []\<rparr>,
      currentWorld = Some \<lparr>renderer = Some \<lparr>renderer_size = \<lparr>v2x = 1500, v2y = 1000\<rparr>\<rparr>\<rparr>,
      three =
        \<lparr>position = \<lparr>v3x = 0, v3y = 0, v3z = 0\<rparr>,
         worldDirection = \<lparr>v3x = 0, v3y = 0, v3z = - 1\<rparr>,
         fov = 50\<rparr>\<rparr>"

definition example_window :: Window where
  "example_window = \<lparr>innerWidth = 1500, innerHeight = 1000\<rparr>"

definition example_camera :: OrthoPerspectiveCamera where
  "example_camera = new_OrthoPerspectiveCamera example_base example_window"

subsection \<open>Sequences of calls\<close>

text \<open>
  What application code and the event sources can do to a camera, one call after the
  other; an exception thrown by \<^verbatim>\<open>set\<close> is caught by the caller and the state stays
  as the throw left it.
\<close>

datatype call =
  CallSet NavModeID
| CallFit "Mesh list" "real option"
| CallSetUserInput bool
| AspectUpdated
| WorldChanged

fun perform :: "call \<Rightarrow> OrthoPerspectiveCamera \<Rightarrow> OrthoPerspectiveCamera" where
  "perform (CallSet mode_id) s = snd (set_mode mode_id s)"
| "perform (CallFit meshes offset_arg) s = fit meshes offset_arg s"
| "perform (CallSetUserInput active) s = setUserInput active s"
| "perform AspectUpdated s = setOrthoCameraAspect s"
| "perform WorldChanged s = snd (onWorldChanged s)"

definition run :: "call list \<Rightarrow> OrthoPerspectiveCamera \<Rightarrow> OrthoPerspectiveCamera" where
  "run calls s = fold perform calls s"

fun no_world_bind :: "call list \<Rightarrow> bool" where
  "no_world_bind [] = True"
| "no_world_bind (c # cs) = (c \<noteq> WorldChanged \<and> no_world_bind cs)"

definition unbound :: "OrthoPerspectiveCamera \<Rightarrow> bool" where
  "unbound s \<longleftrightarrow> priv_mode s = None \<and> priv_navigationModes s = Map.empty"

subsection \<open>Example meshes and the union box as the specification words it\<close>

definition mesh_a :: Mesh where
  "mesh_a = \<lparr>bounding_box =
     \<lparr>box_min = \<lparr>v3x = - 1, v3y = - 1, v3z = - 1\<rparr>, box_max = \<lparr>v3x = 1, v3y = 1, v3z = 1\<rparr>\<rparr>\<rparr>"

definition mesh_b :: Mesh where
  "mesh_b = \<lparr>bounding_box =
     \<lparr>box_min = \<lparr>v3x = 0, v3y = 0, v3z = 0\<rparr>, box_max = \<lparr>v3x = 3, v3y = 3, v3z = 3\<rparr>\<rparr>\<rparr>"

definition mesh_below :: Mesh where
  "mesh_below = \<lparr>bounding_box =
     \<lparr>box_min = \<lparr>v3x = - 3, v3y = - 3, v3z = - 3\<rparr>, box_max = \<lparr>v3x = - 1, v3y = - 1, v3z = - 1\<rparr>\<rparr>\<rparr>"

text \<open>
  The union box in the specification's words: its minimum is the component-wise minimum
  of the meshes' box minima, its maximum the component-wise maximum of their maxima; the
  sphere has the center of that box and the radius offset times the largest extent.
  Both are meant for a collection that is not empty.
\<close>

definition spec_union_box :: "Mesh list \<Rightarrow> Box3" where
  "spec_union_box meshes =
     \<lparr>box_min =
        \<lparr>v3x = Min (set (map (\<lambda>m. v3x (box_min (setFromObject m))) meshes)),
         v3y = Min (set (map (\<lambda>m. v3y (box_min (setFromObject m))) meshes)),
         v3z = Min (set (map (\<lambda>m. v3z (box_min (setFromObject m))) meshes))\<rparr>,
      box_max =
        \<lparr>v3x = Max (set (map (\<lambda>m. v3x (box_max (setFromObject m))) meshes)),
         v3y = Max (set (map (\<lambda>m. v3y (box_max (setFromObject m))) meshes)),
         v3z = Max (set (map (\<lambda>m. v3z (box_max (setFromObject m))) meshes))\<rparr>\<rparr>"

definition spec_fit_sphere :: "Mesh list \<Rightarrow> real \<Rightarrow> Sphere" where
  "spec_fit_sphere meshes offset =
     (let box = spec_union_box meshes;
          extentX = v3x (box_max box) - v3x (box_min box);
          extentY = v3y (box_max box) - v3y (box_min box);
          extentZ = v3z (box_max box) - v3z (box_min box)
      in \<lparr>center =
            \<lparr>v3x = (v3x (box_min box) + v3x (box_max box)) / 2,
             v3y = (v3y (box_min box) + v3y (box_max box)) / 2,
             v3z = (v3z (box_min box) + v3z (box_max box)) / 2\<rparr>,
          radius = offset * max (max extentX extentY) extentZ\<rparr>)"

section \<open>Properties\<close>

subsection \<open>Facts of real analysis and of the two constants\<close>

lemma arctan_less_self_pos:
  fixes x :: real
  assumes "0 < x"
  shows "arctan x < x"
proof -
  have pos: "\<exists>y. DERIV (\<lambda>u. u - arctan u) t :> y \<and> y > 0" if "0 < t" "t < x" for t :: real
  proof -
    have d: "DERIV (\<lambda>u. u - arctan u) t :> 1 - inverse (1 + t\<^sup>2)"
      by (rule DERIV_diff [OF DERIV_ident DERIV_arctan])
    have "1 < 1 + t\<^sup>2" using that by simp
    then have "inverse (1 + t\<^sup>2) < 1"
      by (simp add: inverse_less_1_iff)
    then have "1 - inverse (1 + t\<^sup>2) > 0" by simp
    with d show ?thesis by blast
  qed
  have con: "continuous_on {0..x} (\<lambda>u. u - arctan u)"
    by (intro continuous_on_diff continuous_on_id continuous_on_arctan)
  have "(\<lambda>u. u - arctan u) 0 < (\<lambda>u. u - arctan u) x"
    using assms pos con by (rule DERIV_pos_imp_increasing_open)
  then show ?thesis by simp
qed

lemma self_less_tan:
  fixes y :: real
  assumes "0 < y" "y < pi / 2"
  shows "y < tan y"
proof -
  have "0 < tan y" using assms by (rule tan_gt_zero)
  then have "arctan (tan y) < tan y" by (rule arctan_less_self_pos)
  moreover have "arctan (tan y) = y" using assms by (intro arctan_tan) auto
  ultimately show ?thesis by simp
qed

lemma pi_less_16_5: "pi < 16 / 5"
proof -
  have a: "arctan (1 / 5) < 1 / (5::real)" by (rule arctan_less_self_pos) simp
  have b: "0 < arctan (1 / (239::real))" by simp
  have "pi / 4 = 4 * arctan (1 / 5) - arctan (1 / 239)" by (rule machin)
  then show ?thesis using a b by linarith
qed

lemma MIN_VALUE_pos: "0 < MIN_VALUE"
  unfolding MIN_VALUE_def by (rule divide_pos_pos) simp_all

lemma MAX_VALUE_big: "1 < MAX_VALUE"
proof -
  have "(1::real) \<le> 2 ^ 53 - 1" by simp
  moreover have "(1::real) < 2 ^ 971" by (rule one_less_power) simp_all
  ultimately have "1 * 1 < ((2::real) ^ 53 - 1) * 2 ^ 971"
    by (intro mult_le_less_imp_less) simp_all
  then show ?thesis unfolding MAX_VALUE_def by (simp only: mult_1)
qed


subsection \<open>Before the first world-change event\<close>

lemma unbound_new: "unbound (new_OrthoPerspectiveCamera base window)"
  by (simp add: unbound_def new_OrthoPerspectiveCamera_def)

lemma set_mode_null: "priv_mode s = None \<Longrightarrow> set_mode mode_id s = (Inl NotInitialized, s)"
  by (simp add: set_mode_def mode_def)

lemma unbound_fit: "unbound s \<Longrightarrow> unbound (fit meshes offset_arg s)"
  by (simp add: unbound_def fit_def Let_def)

lemma unbound_setUserInput: "unbound s \<Longrightarrow> unbound (setUserInput active s)"
  by (simp add: unbound_def setUserInput_def enableUserInput_def disableUserInput_def Let_def)

lemma unbound_setOrthoCameraAspect: "unbound s \<Longrightarrow> unbound (setOrthoCameraAspect s)"
  by (simp add: unbound_def setOrthoCameraAspect_def Let_def split: option.splits)

lemma unbound_perform: "unbound s \<Longrightarrow> c \<noteq> WorldChanged \<Longrightarrow> unbound (perform c s)"
proof (cases c)
  case (CallSet mode_id)
  assume "unbound s"
  then show ?thesis using CallSet by (simp add: unbound_def set_mode_null)
qed (simp_all add: unbound_fit unbound_setUserInput unbound_setOrthoCameraAspect)

lemma unbound_fold: "unbound s \<Longrightarrow> no_world_bind calls \<Longrightarrow> unbound (fold perform calls s)"
  by (induction calls arbitrary: s) (simp_all add: unbound_perform)

text \<open>
  Claim C7. On a camera that has been constructed and then used in any way that involves
  no world-change event, the registry is empty, no mode is set, and reading the getter
  \<^verbatim>\<open>mode\<close> throws the error "camera not initialized".
\<close>

theorem C7_mode_before_world_bind:
  "no_world_bind calls \<Longrightarrow>
     priv_navigationModes (run calls (new_OrthoPerspectiveCamera base window)) = Map.empty
     \<and> priv_mode (run calls (new_OrthoPerspectiveCamera base window)) = None
     \<and> mode (run calls (new_OrthoPerspectiveCamera base window)) = Inl NotInitialized"
proof -
  assume "no_world_bind calls"
  then have "unbound (run calls (new_OrthoPerspectiveCamera base window))"
    unfolding run_def by (rule unbound_fold [OF unbound_new])
  then show ?thesis by (simp add: unbound_def mode_def)
qed

theorem C7_mode_before_world_bind_witness:
  "no_world_bind [CallSetUserInput False, CallSet ''Orbit'', CallFit [] None, AspectUpdated]
   \<and> mode (run [CallSetUserInput False, CallSet ''Orbit'', CallFit [] None, AspectUpdated]
        (new_OrthoPerspectiveCamera example_base example_window)) = Inl NotInitialized"
  using C7_mode_before_world_bind
    [of "[CallSetUserInput False, CallSet ''Orbit'', CallFit [] None, AspectUpdated]" example_base example_window]
  by simp

text \<open>
  Claim C9. While the current-mode reference is null, \<^verbatim>\<open>set(id)\<close> throws the error
  "camera not initialized" for every identifier, also one that the registry does not
  hold, and the state is unchanged.
\<close>

theorem C9_set_before_world_bind:
  "priv_mode s = None \<Longrightarrow> set_mode mode_id s = (Inl NotInitialized, s)"
  by (simp add: set_mode_def mode_def)

theorem C9_set_before_world_bind_witness:
  "priv_mode example_camera = None
   \<and> priv_navigationModes example_camera ''Nonexistent'' = None
   \<and> set_mode ''Nonexistent'' example_camera = (Inl NotInitialized, example_camera)"
proof -
  have h: "priv_mode example_camera = None"
    by (simp add: example_camera_def new_OrthoPerspectiveCamera_def)
  have r: "priv_navigationModes example_camera ''Nonexistent'' = None"
    by (simp add: example_camera_def new_OrthoPerspectiveCamera_def)
  show ?thesis using h r C9_set_before_world_bind [OF h, of "''Nonexistent''"] by simp
qed

subsection \<open>Navigation modes and the world-change event\<close>

lemma onWorldChanged_eq:
  "onWorldChanged s =
     (Inr (),
      s\<lparr>priv_navigationModes :=
           [''Orbit'' \<mapsto> OrbitMode, ''FirstPerson'' \<mapsto> FirstPersonMode, ''Plan'' \<mapsto> PlanMode],
        priv_mode := Some OrbitMode,
        mode_calls := mode_calls s @
          [\<lparr>call_mode = OrbitMode, call_active = True,
            call_options = Some \<lparr>preventTargetAdjustment = True\<rparr>\<rparr>]\<rparr>)"
  by (simp add: onWorldChanged_def mode_def nav_set_def Let_def)

text \<open>
  Claim C2, evaluated on the code. After a world-change event, \<^verbatim>\<open>set("Nonexistent")\<close>
  throws the error "the specified mode does not exist" and the current-mode reference
  still holds the Orbit mode, but that mode has received \<^verbatim>\<open>set(false)\<close>: the
  deactivation runs before the registry is consulted.
\<close>

theorem C2_set_unknown_mode_after_world_bind:
  "fst (set_mode ''Nonexistent'' (snd (onWorldChanged s))) = Inl UnknownMode
   \<and> priv_mode (snd (set_mode ''Nonexistent'' (snd (onWorldChanged s)))) = Some OrbitMode
   \<and> mode_calls (snd (set_mode ''Nonexistent'' (snd (onWorldChanged s)))) =
       mode_calls (snd (onWorldChanged s)) @
         [\<lparr>call_mode = OrbitMode, call_active = False, call_options = None\<rparr>]"
  by (simp add: onWorldChanged_eq set_mode_def mode_def nav_set_def Let_def)

text \<open>Whatever \<^verbatim>\<open>set\<close> does, the calls it makes on modes carry no options.\<close>

lemma set_mode_calls:
  "\<exists>new. mode_calls (snd (set_mode mode_id t)) = mode_calls t @ new
     \<and> list_all (\<lambda>c. call_options c = None) new"
proof (cases "priv_mode t")
  case None
  then show ?thesis by (simp add: set_mode_def mode_def)
next
  case (Some cur)
  show ?thesis
  proof (cases "nav_id cur = mode_id")
    case True
    with Some show ?thesis by (simp add: set_mode_def mode_def)
  next
    case False
    show ?thesis
    proof (cases "priv_navigationModes t mode_id")
      case None
      with Some False show ?thesis
        by (simp add: set_mode_def mode_def nav_set_def Let_def)
    next
      case (Some new_mode)
      with \<open>priv_mode t = Some cur\<close> False show ?thesis
        by (simp add: set_mode_def mode_def nav_set_def Let_def)
    qed
  qed
qed

text \<open>
  Claim C8. The world-change handler never throws; it leaves a registry of exactly the
  three identifiers Orbit, FirstPerson and Plan, each bound to its own mode; the current
  mode is Orbit; the one call it makes is \<^verbatim>\<open>set(true, {preventTargetAdjustment: true})\<close>
  on the Orbit mode. Every call that \<^verbatim>\<open>set\<close> makes on a mode, in any state, has no
  options argument.
\<close>

theorem C8_world_change_activates_orbit:
  "fst (onWorldChanged s) = Inr ()
   \<and> dom (priv_navigationModes (snd (onWorldChanged s))) = {''Orbit'', ''FirstPerson'', ''Plan''}
   \<and> priv_navigationModes (snd (onWorldChanged s)) ''Orbit'' = Some OrbitMode
   \<and> priv_navigationModes (snd (onWorldChanged s)) ''FirstPerson'' = Some FirstPersonMode
   \<and> priv_navigationModes (snd (onWorldChanged s)) ''Plan'' = Some PlanMode
   \<and> mode (snd (onWorldChanged s)) = Inr OrbitMode
   \<and> mode_calls (snd (onWorldChanged s)) =
       mode_calls s @
         [\<lparr>call_mode = OrbitMode, call_active = True,
           call_options = Some \<lparr>preventTargetAdjustment = True\<rparr>\<rparr>]
   \<and> (\<exists>new. mode_calls (snd (set_mode mode_id t)) = mode_calls t @ new
         \<and> list_all (\<lambda>c. call_options c = None) new)"
proof -
  have "dom (priv_navigationModes (snd (onWorldChanged s))) = {''Orbit'', ''FirstPerson'', ''Plan''}"
    by (auto simp: onWorldChanged_eq)
  then show ?thesis
    using set_mode_calls [of mode_id t] by (simp add: onWorldChanged_eq mode_def)
qed

theorem C8_world_change_activates_orbit_witness:
  "mode (snd (onWorldChanged example_camera)) = Inr OrbitMode
   \<and> mode_calls (snd (onWorldChanged example_camera)) =
       [\<lparr>call_mode = OrbitMode, call_active = True,
         call_options = Some \<lparr>preventTargetAdjustment = True\<rparr>\<rparr>]
   \<and> mode_calls (snd (set_mode ''Plan'' (snd (onWorldChanged example_camera)))) =
       [\<lparr>call_mode = OrbitMode, call_active = True,
         call_options = Some \<lparr>preventTargetAdjustment = True\<rparr>\<rparr>,
        \<lparr>call_mode = OrbitMode, call_active = False, call_options = None\<rparr>,
        \<lparr>call_mode = PlanMode, call_active = True, call_options = None\<rparr>]"
proof -
  have e: "mode_calls example_camera = []"
    by (simp add: example_camera_def new_OrthoPerspectiveCamera_def)
  have "mode_calls (snd (set_mode ''Plan'' (snd (onWorldChanged example_camera)))) =
       [\<lparr>call_mode = OrbitMode, call_active = True,
         call_options = Some \<lparr>preventTargetAdjustment = True\<rparr>\<rparr>,
        \<lparr>call_mode = OrbitMode, call_active = False, call_options = None\<rparr>,
        \<lparr>call_mode = PlanMode, call_active = True, call_options = None\<rparr>]"
    by (simp add: onWorldChanged_eq set_mode_def mode_def nav_set_def Let_def e)
  then show ?thesis
    using C8_world_change_activates_orbit
      [of example_camera "''Plan''" "snd (onWorldChanged example_camera)"] e
    by simp
qed

subsection \<open>The user-input snapshot\<close>

lemma disableUserInput_eq:
  "disableUserInput s =
     s\<lparr>priv_userInputButtons :=
          AList.update ''wheel'' (mb_wheel (mouseButtons (controls s)))
            (AList.update ''middle'' (mb_middle (mouseButtons (controls s)))
              (AList.update ''right'' (mb_right (mouseButtons (controls s)))
                (AList.update ''left'' (mb_left (mouseButtons (controls s)))
                  (priv_userInputButtons s)))),
        controls := (controls s)\<lparr>mouseButtons :=
          \<lparr>mb_left = Number 0, mb_right = Number 0, mb_middle = Number 0, mb_wheel = Number 0\<rparr>\<rparr>\<rparr>"
  by (simp add: disableUserInput_def Let_def)

lemma get_prop_update:
  "get_prop (AList.update k v obj) k' = (if k' = k then v else get_prop obj k')"
  by (simp add: get_prop_def update_conv')

lemma enable_after_disable:
  "mouseButtons (controls (enableUserInput (disableUserInput s))) = mouseButtons (controls s)"
  by (simp add: disableUserInput_eq enableUserInput_def get_prop_update)

text \<open>
  Claim C6. In every state, \<^verbatim>\<open>setUserInput(false)\<close> stores the four current bindings
  in the snapshot under the keys left, right, middle and wheel and sets the four bindings
  to 0; \<^verbatim>\<open>setUserInput(true)\<close> right after it gives the four bindings their values from
  before the disabling; and \<^verbatim>\<open>setUserInput(true)\<close> on an empty snapshot changes
  nothing.
\<close>

theorem C6_setUserInput_round_trip:
  "map_of (priv_userInputButtons (setUserInput False s)) ''left'' = Some (mb_left (mouseButtons (controls s)))
   \<and> map_of (priv_userInputButtons (setUserInput False s)) ''right'' = Some (mb_right (mouseButtons (controls s)))
   \<and> map_of (priv_userInputButtons (setUserInput False s)) ''middle'' = Some (mb_middle (mouseButtons (controls s)))
   \<and> map_of (priv_userInputButtons (setUserInput False s)) ''wheel'' = Some (mb_wheel (mouseButtons (controls s)))
   \<and> mouseButtons (controls (setUserInput False s)) =
       \<lparr>mb_left = Number 0, mb_right = Number 0, mb_middle = Number 0, mb_wheel = Number 0\<rparr>
   \<and> mouseButtons (controls (setUserInput True (setUserInput False s))) = mouseButtons (controls s)
   \<and> (priv_userInputButtons s = [] \<longrightarrow> setUserInput True s = s)"
  by (simp add: setUserInput_def enable_after_disable)
    (simp add: disableUserInput_eq enableUserInput_def update_conv')

theorem C6_setUserInput_round_trip_witness:
  "priv_userInputButtons example_camera = []
   \<and> setUserInput True example_camera = example_camera
   \<and> mouseButtons (controls example_camera) =
       \<lparr>mb_left = Number 1, mb_right = Number 2, mb_middle = Number 4, mb_wheel = Number 8\<rparr>
   \<and> mouseButtons (controls (setUserInput False example_camera)) =
       \<lparr>mb_left = Number 0, mb_right = Number 0, mb_middle = Number 0, mb_wheel = Number 0\<rparr>
   \<and> mouseButtons (controls (setUserInput True (setUserInput False example_camera))) =
       \<lparr>mb_left = Number 1, mb_right = Number 2, mb_middle = Number 4, mb_wheel = Number 8\<rparr>"
proof -
  have e: "priv_userInputButtons example_camera = []"
    by (simp add: example_camera_def new_OrthoPerspectiveCamera_def)
  have b: "mouseButtons (controls example_camera) =
       \<lparr>mb_left = Number 1, mb_right = Number 2, mb_middle = Number 4, mb_wheel = Number 8\<rparr>"
    by (simp add: example_camera_def new_OrthoPerspectiveCamera_def example_base_def)
  show ?thesis using e b C6_setUserInput_round_trip [of example_camera] by simp
qed

text \<open>
  Claim C10. After two calls of \<^verbatim>\<open>setUserInput(false)\<close> in a row the snapshot holds 0
  under each of the four keys, and \<^verbatim>\<open>setUserInput(true)\<close> then sets the four bindings
  to 0, whatever they were before the first call.
\<close>

theorem C10_disable_twice_loses_bindings:
  "map_of (priv_userInputButtons (setUserInput False (setUserInput False s))) ''left'' = Some (Number 0)
   \<and> map_of (priv_userInputButtons (setUserInput False (setUserInput False s))) ''right'' = Some (Number 0)
   \<and> map_of (priv_userInputButtons (setUserInput False (setUserInput False s))) ''middle'' = Some (Number 0)
   \<and> map_of (priv_userInputButtons (setUserInput False (setUserInput False s))) ''wheel'' = Some (Number 0)
   \<and> mouseButtons (controls (setUserInput True (setUserInput False (setUserInput False s)))) =
       \<lparr>mb_left = Number 0, mb_right = Number 0, mb_middle = Number 0, mb_wheel = Number 0\<rparr>"
  by (simp add: setUserInput_def enable_after_disable)
    (simp add: disableUserInput_eq update_conv')

subsection \<open>Fitting the view\<close>

lemma inverse_less_1: "1 < a \<Longrightarrow> 1 / a < (1::real)"
  by simp

lemma MIN_VALUE_less_1: "MIN_VALUE < 1"
proof -
  have "1 < (2::real) ^ 1074" by (rule one_less_power) simp_all
  then show ?thesis unfolding MIN_VALUE_def by (rule inverse_less_1)
qed

lemma MIN_VALUE_less_MAX_VALUE: "MIN_VALUE < MAX_VALUE"
  using MIN_VALUE_less_1 MAX_VALUE_big by (rule less_trans)

lemma fit_box_Nil:
  "fit_box [] =
     \<lparr>box_min = \<lparr>v3x = MAX_VALUE, v3y = MAX_VALUE, v3z = MAX_VALUE\<rparr>,
      box_max = \<lparr>v3x = MIN_VALUE, v3y = MIN_VALUE, v3z = MIN_VALUE\<rparr>\<rparr>"
  by (simp add: fit_box_def Let_def)

lemma fit_sphere_Nil:
  "fit_sphere [] offset = \<lparr>center = \<lparr>v3x = 0, v3y = 0, v3z = 0\<rparr>, radius = 0\<rparr>"
  by (simp add: fit_sphere_def fit_box_Nil getSize_def getCenter_def isEmpty_def
      MIN_VALUE_less_MAX_VALUE Let_def)

text \<open>
  Claim C3, refuted on the code. On the example camera, which is enabled and has no
  earlier controller call, \<^verbatim>\<open>fit\<close> on the empty collection calls
  \<^verbatim>\<open>fitToSphere\<close> once, with the sphere of the untouched running box.
\<close>

theorem C3_fit_empty_calls_fitToSphere:
  "fitToSphere_calls (controls example_camera) = []
   \<and> fitToSphere_calls (controls (fit [] None example_camera)) =
       [(\<lparr>center = \<lparr>v3x = 0, v3y = 0, v3z = 0\<rparr>, radius = 0\<rparr>, True)]"
  by (simp add: fit_def fit_sphere_Nil fitToSphere_def Let_def
      example_camera_def new_OrthoPerspectiveCamera_def example_base_def)

text \<open>
  Claim C3 as amended. \<^verbatim>\<open>fit\<close> has no case for the empty collection: on an
  enabled camera the running box is left as it was initialised, three.js takes that box
  for empty, and \<^verbatim>\<open>fitToSphere\<close> is called once with the sphere of center
  \<open>(0, 0, 0)\<close> and radius 0; nothing else changes.
\<close>

theorem C3_fit_empty_amended:
  "enabled s \<Longrightarrow>
     fit [] offset_arg s =
       s\<lparr>controls := fitToSphere \<lparr>center = \<lparr>v3x = 0, v3y = 0, v3z = 0\<rparr>, radius = 0\<rparr> True (controls s)\<rparr>"
  by (simp add: fit_def fit_sphere_Nil Let_def)

theorem C3_fit_empty_amended_witness:
  "enabled example_camera
   \<and> fit [] None example_camera =
       example_camera\<lparr>controls :=
         fitToSphere \<lparr>center = \<lparr>v3x = 0, v3y = 0, v3z = 0\<rparr>, radius = 0\<rparr> True (controls example_camera)\<rparr>"
proof -
  have h: "enabled example_camera"
    by (simp add: example_camera_def new_OrthoPerspectiveCamera_def example_base_def)
  show ?thesis using h C3_fit_empty_amended [OF h, of None] by simp
qed

lemma enabled_setUserInput: "enabled (setUserInput active s) = enabled s"
  by (simp add: setUserInput_def enableUserInput_def disableUserInput_def Let_def)

text \<open>
  Claim C5, refuted on the code. The example camera is enabled; after
  \<^verbatim>\<open>setUserInput(false)\<close> a call of \<^verbatim>\<open>fit\<close> on two meshes changes the state and
  makes one \<^verbatim>\<open>fitToSphere\<close> call.
\<close>

theorem C5_fit_after_setUserInput_false:
  "enabled example_camera
   \<and> fit [mesh_a, mesh_b] (Some 2) (setUserInput False example_camera) \<noteq> setUserInput False example_camera
   \<and> fitToSphere_calls (controls (setUserInput False example_camera)) = []
   \<and> length (fitToSphere_calls (controls (fit [mesh_a, mesh_b] (Some 2) (setUserInput False example_camera)))) = 1"
proof -
  have h: "enabled example_camera"
    by (simp add: example_camera_def new_OrthoPerspectiveCamera_def example_base_def)
  then have h': "enabled (setUserInput False example_camera)"
    by (simp add: enabled_setUserInput)
  have c: "fitToSphere_calls (controls (setUserInput False example_camera)) = []"
    by (simp add: setUserInput_def disableUserInput_def Let_def
        example_camera_def new_OrthoPerspectiveCamera_def example_base_def)
  have l: "length (fitToSphere_calls (controls (fit [mesh_a, mesh_b] (Some 2) (setUserInput False example_camera)))) = 1"
    using h' c by (simp add: fit_def fitToSphere_def Let_def)
  from l c have "fit [mesh_a, mesh_b] (Some 2) (setUserInput False example_camera) \<noteq> setUserInput False example_camera"
    by auto
  with h c l show ?thesis by simp
qed

text \<open>
  Claim C5 as amended. \<^verbatim>\<open>fit\<close> is a no-op whenever the camera's \<^verbatim>\<open>enabled\<close>
  flag is false: the state, and with it the list of controller calls, is unchanged.
  \<^verbatim>\<open>setUserInput\<close> never changes that flag.
\<close>

theorem C5_fit_disabled_amended:
  "(\<not> enabled s \<longrightarrow> fit meshes offset_arg s = s)
   \<and> enabled (setUserInput active s) = enabled s"
  by (simp add: fit_def enabled_setUserInput)

theorem C5_fit_disabled_amended_witness:
  "\<not> enabled (example_camera\<lparr>enabled := False\<rparr>)
   \<and> fit [mesh_a, mesh_b] (Some 2) (example_camera\<lparr>enabled := False\<rparr>) = example_camera\<lparr>enabled := False\<rparr>"
  using C5_fit_disabled_amended [of "example_camera\<lparr>enabled := False\<rparr>" "[mesh_a, mesh_b]" "Some 2" False]
  by simp

text \<open>
  What the loop of \<^verbatim>\<open>fit\<close> computes, for any collection: on each axis the smallest
  of \<^verbatim>\<open>Number.MAX_VALUE\<close> and the box minima, and the largest of
  \<^verbatim>\<open>Number.MIN_VALUE\<close> and the box maxima.
\<close>

lemma fit_loop_min:
  "v3x (fst (fit_loop ms acc)) = fold min (map (\<lambda>m. v3x (box_min (setFromObject m))) ms) (v3x (fst acc))"
  "v3y (fst (fit_loop ms acc)) = fold min (map (\<lambda>m. v3y (box_min (setFromObject m))) ms) (v3y (fst acc))"
  "v3z (fst (fit_loop ms acc)) = fold min (map (\<lambda>m. v3z (box_min (setFromObject m))) ms) (v3z (fst acc))"
  by (induction ms arbitrary: acc; simp add: fit_step_def Let_def min_def)+

lemma fit_loop_max:
  "v3x (snd (fit_loop ms acc)) = fold max (map (\<lambda>m. v3x (box_max (setFromObject m))) ms) (v3x (snd acc))"
  "v3y (snd (fit_loop ms acc)) = fold max (map (\<lambda>m. v3y (box_max (setFromObject m))) ms) (v3y (snd acc))"
  "v3z (snd (fit_loop ms acc)) = fold max (map (\<lambda>m. v3z (box_max (setFromObject m))) ms) (v3z (snd acc))"
  by (induction ms arbitrary: acc; simp add: fit_step_def Let_def max_def)+

lemma fold_min_Min: "fold min xs (a::real) = Min (insert a (set xs))"
  using Min.set_eq_fold [of a xs] by simp

lemma fold_max_Max: "fold max xs (a::real) = Max (insert a (set xs))"
  using Max.set_eq_fold [of a xs] by simp

lemma fit_box_running:
  "fit_box meshes =
     \<lparr>box_min =
        \<lparr>v3x = Min (insert MAX_VALUE (set (map (\<lambda>m. v3x (box_min (setFromObject m))) meshes))),
         v3y = Min (insert MAX_VALUE (set (map (\<lambda>m. v3y (box_min (setFromObject m))) meshes))),
         v3z = Min (insert MAX_VALUE (set (map (\<lambda>m. v3z (box_min (setFromObject m))) meshes)))\<rparr>,
      box_max =
        \<lparr>v3x = Max (insert MIN_VALUE (set (map (\<lambda>m. v3x (box_max (setFromObject m))) meshes))),
         v3y = Max (insert MIN_VALUE (set (map (\<lambda>m. v3y (box_max (setFromObject m))) meshes))),
         v3z = Max (insert MIN_VALUE (set (map (\<lambda>m. v3z (box_max (setFromObject m))) meshes)))\<rparr>\<rparr>"
proof -
  have "fst (fit_loop meshes acc) =
      \<lparr>v3x = v3x (fst (fit_loop meshes acc)), v3y = v3y (fst (fit_loop meshes acc)),
       v3z = v3z (fst (fit_loop meshes acc))\<rparr>" for acc
    by simp
  moreover have "snd (fit_loop meshes acc) =
      \<lparr>v3x = v3x (snd (fit_loop meshes acc)), v3y = v3y (snd (fit_loop meshes acc)),
       v3z = v3z (snd (fit_loop meshes acc))\<rparr>" for acc
    by simp
  ultimately show ?thesis
    unfolding fit_box_def Let_def
    by (simp only: fit_loop_min fit_loop_max fold_min_Min fold_max_Max fst_conv snd_conv
        Vector3.simps Box3.simps)
qed

text \<open>
  The box of \<^verbatim>\<open>fit\<close> is the union box of the specification whenever the two
  start values do not win: no coordinate of the union's minimum above
  \<^verbatim>\<open>Number.MAX_VALUE\<close>, none of its maximum below \<^verbatim>\<open>Number.MIN_VALUE\<close>.
\<close>

lemma fit_box_agrees:
  assumes "meshes \<noteq> []"
    and "v3x (box_min (spec_union_box meshes)) \<le> MAX_VALUE"
    and "v3y (box_min (spec_union_box meshes)) \<le> MAX_VALUE"
    and "v3z (box_min (spec_union_box meshes)) \<le> MAX_VALUE"
    and "MIN_VALUE \<le> v3x (box_max (spec_union_box meshes))"
    and "MIN_VALUE \<le> v3y (box_max (spec_union_box meshes))"
    and "MIN_VALUE \<le> v3z (box_max (spec_union_box meshes))"
  shows "fit_box meshes = spec_union_box meshes"
proof -
  have mn: "Min (insert a (set (map f meshes))) = min a (Min (set (map f meshes)))"
    for a :: real and f :: "Mesh \<Rightarrow> real"
    using assms(1) by (intro Min_insert) simp_all
  have mx: "Max (insert a (set (map f meshes))) = max a (Max (set (map f meshes)))"
    for a :: real and f :: "Mesh \<Rightarrow> real"
    using assms(1) by (intro Max_insert) simp_all
  show ?thesis
    using assms(2-7)
    unfolding fit_box_running mn mx
    by (simp add: spec_union_box_def min_def max_def)
qed

lemma below_MAX_VALUE: "- 3 < MAX_VALUE" "- 1 < MAX_VALUE" "0 < MAX_VALUE"
  using MAX_VALUE_big by linarith+

lemma above_MIN_VALUE: "\<not> MIN_VALUE < - 1" "MIN_VALUE < 1" "MIN_VALUE < 3" "\<not> MIN_VALUE < - 3"
  using MIN_VALUE_pos MIN_VALUE_less_1 by linarith+

lemma fit_box_mesh_below:
  "fit_box [mesh_below] =
     \<lparr>box_min = \<lparr>v3x = - 3, v3y = - 3, v3z = - 3\<rparr>,
      box_max = \<lparr>v3x = MIN_VALUE, v3y = MIN_VALUE, v3z = MIN_VALUE\<rparr>\<rparr>"
  by (simp add: fit_box_def fit_step_def setFromObject_def mesh_below_def Let_def
      below_MAX_VALUE above_MIN_VALUE)

lemma spec_union_box_mesh_below:
  "spec_union_box [mesh_below] =
     \<lparr>box_min = \<lparr>v3x = - 3, v3y = - 3, v3z = - 3\<rparr>,
      box_max = \<lparr>v3x = - 1, v3y = - 1, v3z = - 1\<rparr>\<rparr>"
  by (simp add: spec_union_box_def setFromObject_def mesh_below_def)

text \<open>
  Claim C4, evaluated on the code. For the single mesh with box
  \<open>[(-3,-3,-3), (-1,-1,-1)]\<close> and offset 1 the running maximum never leaves its start
  value \<^verbatim>\<open>Number.MIN_VALUE\<close>, which is positive: the box of \<^verbatim>\<open>fit\<close> is
  \<open>[(-3,-3,-3), (MIN_VALUE, MIN_VALUE, MIN_VALUE)]\<close> and not the union box
  \<open>[(-3,-3,-3), (-1,-1,-1)]\<close>, and the sphere passed to \<^verbatim>\<open>fitToSphere\<close> has radius
  \<open>3 + MIN_VALUE\<close> and not 2.
\<close>

theorem C4_fit_below_origin:
  "fit_box [mesh_below] =
     \<lparr>box_min = \<lparr>v3x = - 3, v3y = - 3, v3z = - 3\<rparr>,
      box_max = \<lparr>v3x = MIN_VALUE, v3y = MIN_VALUE, v3z = MIN_VALUE\<rparr>\<rparr>
   \<and> spec_union_box [mesh_below] =
     \<lparr>box_min = \<lparr>v3x = - 3, v3y = - 3, v3z = - 3\<rparr>,
      box_max = \<lparr>v3x = - 1, v3y = - 1, v3z = - 1\<rparr>\<rparr>
   \<and> fit_box [mesh_below] \<noteq> spec_union_box [mesh_below]
   \<and> radius (fit_sphere [mesh_below] 1) = 3 + MIN_VALUE
   \<and> radius (spec_fit_sphere [mesh_below] 1) = 2
   \<and> fitToSphere_calls (controls (fit [mesh_below] (Some 1) example_camera)) =
       [(fit_sphere [mesh_below] 1, True)]
   \<and> 0 < MIN_VALUE"
proof -
  have ne: "fit_box [mesh_below] \<noteq> spec_union_box [mesh_below]"
    using MIN_VALUE_pos by (simp add: fit_box_mesh_below spec_union_box_mesh_below)
  have r: "radius (fit_sphere [mesh_below] 1) = 3 + MIN_VALUE"
    using MIN_VALUE_pos
    by (simp add: fit_sphere_def fit_box_mesh_below getSize_def isEmpty_def sub_def Let_def
        above_MIN_VALUE)
  have rs: "radius (spec_fit_sphere [mesh_below] 1) = 2"
    by (simp add: spec_fit_sphere_def spec_union_box_mesh_below Let_def)
  have c: "fitToSphere_calls (controls (fit [mesh_below] (Some 1) example_camera)) =
       [(fit_sphere [mesh_below] 1, True)]"
    by (simp add: fit_def fitToSphere_def Let_def
        example_camera_def new_OrthoPerspectiveCamera_def example_base_def)
  show ?thesis
    using ne r rs c MIN_VALUE_pos fit_box_mesh_below spec_union_box_mesh_below by simp
qed

text \<open>
  The example of the specification does hold on the code: for the boxes
  \<open>[(-1,-1,-1), (1,1,1)]\<close> and \<open>[(0,0,0), (3,3,3)]\<close> and offset 2 the box is
  \<open>[(-1,-1,-1), (3,3,3)]\<close>, the center \<open>(1,1,1)\<close> and the radius 8.
\<close>

lemma fit_two_meshes:
  "fit_box [mesh_a, mesh_b] =
     \<lparr>box_min = \<lparr>v3x = - 1, v3y = - 1, v3z = - 1\<rparr>, box_max = \<lparr>v3x = 3, v3y = 3, v3z = 3\<rparr>\<rparr>"
  "fit_box [mesh_a, mesh_b] = spec_union_box [mesh_a, mesh_b]"
  "fit_sphere [mesh_a, mesh_b] 2 = \<lparr>center = \<lparr>v3x = 1, v3y = 1, v3z = 1\<rparr>, radius = 8\<rparr>"
proof -
  show b: "fit_box [mesh_a, mesh_b] =
     \<lparr>box_min = \<lparr>v3x = - 1, v3y = - 1, v3z = - 1\<rparr>, box_max = \<lparr>v3x = 3, v3y = 3, v3z = 3\<rparr>\<rparr>"
    by (simp add: fit_box_def fit_step_def setFromObject_def mesh_a_def mesh_b_def Let_def
        below_MAX_VALUE above_MIN_VALUE)
  show "fit_box [mesh_a, mesh_b] = spec_union_box [mesh_a, mesh_b]"
    unfolding b by (simp add: spec_union_box_def setFromObject_def mesh_a_def mesh_b_def)
  show "fit_sphere [mesh_a, mesh_b] 2 = \<lparr>center = \<lparr>v3x = 1, v3y = 1, v3z = 1\<rparr>, radius = 8\<rparr>"
    by (simp add: fit_sphere_def b getSize_def getCenter_def isEmpty_def sub_def Let_def)
qed

subsection \<open>The orthographic frustum\<close>

lemma setOrthoCameraAspect_frustum:
  assumes "currentWorld s = Some world" and "renderer world = Some r"
  shows "threeOrtho (setOrthoCameraAspect s) =
    (let depth = dot (sub (target (controls s)) (position (threePersp s))) (worldDirection (threePersp s));
         height = depth * 2 * arctan ((fov (threePersp s) * (pi / 180)) / 2);
         width = height * (v2x (renderer_size r) / v2y (renderer_size r))
     in (threeOrtho s)\<lparr>ortho_zoom := 1,
          ortho_left := width / - 2, ortho_right := width / 2,
          ortho_top := height / 2, ortho_bottom := height / - 2,
          projectionMatrix_updates := Suc (projectionMatrix_updates (threeOrtho s))\<rparr>)"
  using assms
  by (simp add: setOrthoCameraAspect_def getWorldDirection_def getTarget_def
      updateProjectionMatrix_def Let_def)

lemma example_frustum:
  "threeOrtho (setOrthoCameraAspect example_camera) =
     (threeOrtho example_camera)\<lparr>ortho_zoom := 1,
        ortho_left := (10 * 2 * arctan ((50 * (pi / 180)) / 2) * (1500 / 1000)) / - 2,
        ortho_right := (10 * 2 * arctan ((50 * (pi / 180)) / 2) * (1500 / 1000)) / 2,
        ortho_top := (10 * 2 * arctan ((50 * (pi / 180)) / 2)) / 2,
        ortho_bottom := (10 * 2 * arctan ((50 * (pi / 180)) / 2)) / - 2,
        projectionMatrix_updates := Suc (projectionMatrix_updates (threeOrtho example_camera))\<rparr>"
proof -
  have w: "currentWorld example_camera = Some \<lparr>renderer = Some \<lparr>renderer_size = \<lparr>v2x = 1500, v2y = 1000\<rparr>\<rparr>\<rparr>"
    by (simp add: example_camera_def new_OrthoPerspectiveCamera_def example_base_def)
  have d: "dot (sub (target (controls example_camera)) (position (threePersp example_camera)))
      (worldDirection (threePersp example_camera)) = 10"
    by (simp add: example_camera_def new_OrthoPerspectiveCamera_def example_base_def dot_def sub_def)
  have f: "fov (threePersp example_camera) = 50"
    by (simp add: example_camera_def new_OrthoPerspectiveCamera_def example_base_def)
  show ?thesis
    unfolding setOrthoCameraAspect_frustum [OF w, of "\<lparr>renderer_size = \<lparr>v2x = 1500, v2y = 1000\<rparr>\<rparr>", simplified]
    by (simp add: Let_def d f)
qed

text \<open>
  For every field of view strictly between 0 and 180 degrees the arctangent of the half
  angle is below its tangent, so at every positive depth the height the code computes is
  below \<open>depth * 2 * tan (fov / 2)\<close>.
\<close>

lemma arctan_half_fov_less_tan:
  fixes fov_deg :: real
  assumes "0 < fov_deg" and "fov_deg < 180"
  shows "arctan ((fov_deg * (pi / 180)) / 2) < tan ((fov_deg * (pi / 180)) / 2)"
proof -
  have p: "0 < (fov_deg * (pi / 180)) / 2" using assms by simp
  have "fov_deg * pi < 180 * pi" using assms by (intro mult_strict_right_mono) simp_all
  then have q: "(fov_deg * (pi / 180)) / 2 < pi / 2" by simp
  have "arctan ((fov_deg * (pi / 180)) / 2) < (fov_deg * (pi / 180)) / 2"
    using p by (rule arctan_less_self_pos)
  also have "\<dots> < tan ((fov_deg * (pi / 180)) / 2)"
    using p q by (rule self_less_tan)
  finally show ?thesis .
qed

lemma code_height_less_tan_height:
  fixes fov_deg depth :: real
  assumes "0 < fov_deg" and "fov_deg < 180" and "0 < depth"
  shows "depth * 2 * arctan ((fov_deg * (pi / 180)) / 2) < depth * 2 * tan ((fov_deg * (pi / 180)) / 2)"
  using arctan_half_fov_less_tan [OF assms(1,2)] assms(3) by simp

lemma half_fov_50:
  "0 < (50 * (pi / 180)) / 2" "(50 * (pi / 180)) / 2 < pi / 2" "(50 * (pi / 180)) / 2 < 4 / 9"
  using pi_gt_zero pi_less_16_5 by simp_all

lemma arctan_half_fov_50:
  "arctan ((50 * (pi / 180)) / 2) < tan ((50 * (pi / 180)) / 2)"
  "10 * 2 * arctan ((50 * (pi / 180)) / 2) < 89 / 10"
proof -
  have a: "arctan ((50 * (pi / 180)) / 2) < (50 * (pi / 180)) / 2"
    by (rule arctan_less_self_pos) (rule half_fov_50)
  moreover have "(50 * (pi / 180)) / 2 < tan ((50 * (pi / 180)) / 2)"
    by (rule self_less_tan) (rule half_fov_50)+
  ultimately show "arctan ((50 * (pi / 180)) / 2) < tan ((50 * (pi / 180)) / 2)"
    by (rule less_trans)
  show "10 * 2 * arctan ((50 * (pi / 180)) / 2) < 89 / 10"
    using a half_fov_50(3) by linarith
qed

text \<open>
  Claim C1, evaluated on the code. For a field of view of 50 degrees, depth 10 and a
  viewport of 1500 by 1000 the synchronisation sets zoom to 1 and the four extents
  symmetrically around zero with the aspect 1.5, but from the height
  \<open>10 * 2 * arctan (50 * (pi / 180) / 2)\<close>: the code calls \<^verbatim>\<open>Math.atan\<close> on the half
  angle. That height is below \<open>10 * 2 * tan (50 * (pi / 180) / 2)\<close>, and below 8.9.
\<close>

theorem C1_frustum_at_fov_50_depth_10:
  "ortho_zoom (threeOrtho (setOrthoCameraAspect example_camera)) = 1
   \<and> ortho_top (threeOrtho (setOrthoCameraAspect example_camera)) =
       (10 * 2 * arctan ((50 * (pi / 180)) / 2)) / 2
   \<and> ortho_bottom (threeOrtho (setOrthoCameraAspect example_camera)) =
       (10 * 2 * arctan ((50 * (pi / 180)) / 2)) / - 2
   \<and> ortho_right (threeOrtho (setOrthoCameraAspect example_camera)) =
       (10 * 2 * arctan ((50 * (pi / 180)) / 2) * (1500 / 1000)) / 2
   \<and> ortho_left (threeOrtho (setOrthoCameraAspect example_camera)) =
       (10 * 2 * arctan ((50 * (pi / 180)) / 2) * (1500 / 1000)) / - 2
   \<and> ortho_top (threeOrtho (setOrthoCameraAspect example_camera))
       - ortho_bottom (threeOrtho (setOrthoCameraAspect example_camera))
       < 10 * 2 * tan ((50 * (pi / 180)) / 2)
   \<and> ortho_top (threeOrtho (setOrthoCameraAspect example_camera))
       - ortho_bottom (threeOrtho (setOrthoCameraAspect example_camera))
       < 89 / 10"
proof -
  have t: "ortho_top (threeOrtho (setOrthoCameraAspect example_camera)) =
       (10 * 2 * arctan ((50 * (pi / 180)) / 2)) / 2"
    unfolding example_frustum by simp
  have b: "ortho_bottom (threeOrtho (setOrthoCameraAspect example_camera)) =
       (10 * 2 * arctan ((50 * (pi / 180)) / 2)) / - 2"
    unfolding example_frustum by simp
  have r: "ortho_right (threeOrtho (setOrthoCameraAspect example_camera)) =
       (10 * 2 * arctan ((50 * (pi / 180)) / 2) * (1500 / 1000)) / 2"
    unfolding example_frustum by simp
  have l: "ortho_left (threeOrtho (setOrthoCameraAspect example_camera)) =
       (10 * 2 * arctan ((50 * (pi / 180)) / 2) * (1500 / 1000)) / - 2"
    unfolding example_frustum by simp
  have z: "ortho_zoom (threeOrtho (setOrthoCameraAspect example_camera)) = 1"
    unfolding example_frustum by simp
  have h: "ortho_top (threeOrtho (setOrthoCameraAspect example_camera))
       - ortho_bottom (threeOrtho (setOrthoCameraAspect example_camera))
       = 10 * 2 * arctan ((50 * (pi / 180)) / 2)"
    unfolding t b by simp
  have h1: "ortho_top (threeOrtho (setOrthoCameraAspect example_camera))
       - ortho_bottom (threeOrtho (setOrthoCameraAspect example_camera))
       < 10 * 2 * tan ((50 * (pi / 180)) / 2)"
    unfolding h using arctan_half_fov_50(1) by simp
  have h2: "ortho_top (threeOrtho (setOrthoCameraAspect example_camera))
       - ortho_bottom (threeOrtho (setOrthoCameraAspect example_camera))
       < 89 / 10"
    unfolding h by (rule arctan_half_fov_50(2))
  from z t b r l h1 h2 show ?thesis by (intro conjI)
qed

end
